theory Spec2Isabelle
  imports Main
begin

section \<open>Data model\<close>

text \<open>
  Python strings are modelled as \<^typ>\<open>string\<close>; one \<^typ>\<open>char\<close> is one code point
  below 256. YAML values are what the safe loader can build: scalars, sequences and
  mappings; Python's \<open>None\<close> is \<open>YNull\<close>.
\<close>

datatype yaml =
    YNull
  | YBool bool
  | YInt int
  | YStr string
  | YSeq "yaml list"
  | YMap "(yaml \<times> yaml) list"

text \<open>The source position that PyYAML attaches to an error (both fields count from 0).\<close>

record mark =
  line :: int
  column :: int

text \<open>
  PyYAML's exceptions: a plain \<open>YAMLError\<close> has no \<open>problem_mark\<close> attribute, a
  \<open>MarkedYAMLError\<close> always has one, which may be \<open>None\<close>. The string is \<open>str(e)\<close>.
\<close>

datatype yaml_exc =
    YAMLError string
  | MarkedYAMLError "mark option" string

text \<open>\<open>UnparsedDocumentationFile\<close> and \<open>ParsedDocumentation\<close> with the fields the parser sets.\<close>

record UnparsedDocumentationFile =
  root_path :: string
  resource_type :: string
  path :: string
  original_file_path :: string
  package_name :: string
  file_contents :: string

record ParsedDocumentation = UnparsedDocumentationFile +
  name :: string
  unique_id :: string
  block_contents :: string

text \<open>The exceptions that the two modules can raise or let through.\<close>

datatype exn =
    TypeError
  | ValueError
  | IndexError
  | AttributeError
  | KeyError string
  | YamlExc yaml_exc
  | DbtValidationError string
  | TemplateSyntaxError string
  | DuplicateResourceError ParsedDocumentation ParsedDocumentation

section \<open>Python built-ins used by the code\<close>

text \<open>The objects that reach \<open>len\<close> and \<open>!=\<close> in the frontmatter guard.\<close>

datatype pyobj =
    PyBool bool
  | PyInt int
  | PyList "string list"

text \<open>
  \<open>a != b\<close>: lists compare with lists, numbers with numbers (\<open>bool\<close> is a subclass of
  \<open>int\<close>); a list and a number are never equal.
\<close>

fun py_ne :: "pyobj \<Rightarrow> pyobj \<Rightarrow> bool" where
  "py_ne (PyList xs) (PyList ys) = (xs \<noteq> ys)"
| "py_ne (PyInt i) (PyInt j) = (i \<noteq> j)"
| "py_ne (PyBool b) (PyBool c) = (b \<noteq> c)"
| "py_ne (PyBool b) (PyInt j) = ((if b then 1 else 0) \<noteq> j)"
| "py_ne (PyInt i) (PyBool c) = (i \<noteq> (if c then 1 else 0))"
| "py_ne (PyList xs) (PyInt j) = True"
| "py_ne (PyList xs) (PyBool c) = True"
| "py_ne (PyInt i) (PyList ys) = True"
| "py_ne (PyBool b) (PyList ys) = True"

text \<open>\<open>len(x)\<close>: defined on lists; \<open>int\<close> and \<open>bool\<close> have no \<open>__len__\<close>.\<close>

fun py_len :: "pyobj \<Rightarrow> exn + nat" where
  "py_len (PyList xs) = Inr (length xs)"
| "py_len (PyInt i) = Inl TypeError"
| "py_len (PyBool b) = Inl TypeError"

definition nl :: char where
  "nl = CHR ''\<newline>''"

text \<open>\<open>str(i)\<close> for an integer.\<close>

definition digit_char :: "nat \<Rightarrow> char" where
  "digit_char d = char_of (48 + d)"

fun str_nat :: "nat \<Rightarrow> string" where
  "str_nat n = (if n < 10 then [digit_char n] else str_nat (n div 10) @ [digit_char (n mod 10)])"

definition str_int :: "int \<Rightarrow> string" where
  "str_int i = (if i < 0 then CHR ''-'' # str_nat (nat (- i)) else str_nat (nat i))"

text \<open>\<open>s.ljust(width)\<close>: pad with spaces on the right, never cut.\<close>

definition ljust :: "string \<Rightarrow> nat \<Rightarrow> string" where
  "ljust s width = s @ replicate (width - length s) CHR '' ''"

text \<open>\<open>sep.join(xs)\<close>.\<close>

fun join :: "string \<Rightarrow> string list \<Rightarrow> string" where
  "join sep [] = []"
| "join sep [x] = x"
| "join sep (x # y # ys) = x @ sep @ join sep (y # ys)"

text \<open>\<open>s.split("\n")\<close>: never empty, one more piece than there are newlines.\<close>

fun split_nl :: "string \<Rightarrow> string list" where
  "split_nl [] = [[]]"
| "split_nl (c # cs) =
     (if c = nl then [] # split_nl cs
      else (case split_nl cs of [] \<Rightarrow> [[c]] | l # ls \<Rightarrow> (c # l) # ls))"

text \<open>\<open>range(a, b)\<close> and the slice \<open>xs[a:b]\<close>, where a negative bound counts from the end.\<close>

definition py_range :: "int \<Rightarrow> int \<Rightarrow> int list" where
  "py_range a b = [a..b - 1]"

definition slice_bound :: "nat \<Rightarrow> int \<Rightarrow> nat" where
  "slice_bound n i = (if i < 0 then nat (max (i + int n) 0) else min (nat i) n)"

definition py_slice :: "'a list \<Rightarrow> int \<Rightarrow> int \<Rightarrow> 'a list" where
  "py_slice xs a b =
     (let lo = slice_bound (length xs) a; hi = slice_bound (length xs) b
      in take (hi - lo) (drop lo xs))"

text \<open>\<open>s.startswith(p)\<close>.\<close>

definition startswith :: "string \<Rightarrow> string \<Rightarrow> bool" where
  "startswith s p = (take (length p) s = p)"

text \<open>
  \<open>s.replace(old, new)\<close>: every occurrence of \<open>old\<close>, leftmost first and not
  overlapping; an empty \<open>old\<close> matches before every character and at the end.
\<close>

fun replace_nonempty :: "string \<Rightarrow> char \<Rightarrow> string \<Rightarrow> string \<Rightarrow> string" where
  "replace_nonempty [] old0 old_rest new = []"
| "replace_nonempty (c # cs) old0 old_rest new =
     (if c = old0 \<and> take (length old_rest) cs = old_rest
      then new @ replace_nonempty (drop (length old_rest) cs) old0 old_rest new
      else c # replace_nonempty cs old0 old_rest new)"

definition py_replace :: "string \<Rightarrow> string \<Rightarrow> string \<Rightarrow> string" where
  "py_replace s old new =
     (case old of
        [] \<Rightarrow> new @ concat (map (\<lambda>c. c # new) s)
      | old0 # old_rest \<Rightarrow> replace_nonempty s old0 old_rest new)"

section \<open>The regular expressions of \<open>yaml_helper\<close>\<close>

text \<open>
  The two compiled patterns use anchors, literal characters, the classes \<open>\s\<close> and
  \<open>\S\<close>, and a greedy star. Both are compiled for \<open>str\<close>, so \<open>\s\<close> is Unicode
  white space; below 256 these are the code points 9-13, 28-32, 133 and 160.
\<close>

definition is_space :: "char \<Rightarrow> bool" where
  "is_space c = (of_char c \<in> {9, 10, 11, 12, 13, 28, 29, 30, 31, 32, 133, 160 :: nat})"

datatype atom = Lit char | Space | NonSpace

datatype item = Bol | Eol | One atom | Star atom

type_synonym regex = "item list"

fun amatch :: "atom \<Rightarrow> char \<Rightarrow> bool" where
  "amatch (Lit a) c = (a = c)"
| "amatch Space c = is_space c"
| "amatch NonSpace c = (\<not> is_space c)"

text \<open>
  The backtracking matcher at one position: \<open>prev\<close> is the character before the
  position (none at the start of the string), the result is the number of characters of
  the first match in priority order. With \<open>re.MULTILINE\<close>, \<open>^\<close> holds at the start and
  after a newline, \<open>$\<close> at the end and before a newline. A star first tries one more
  character and gives it back when the rest of the pattern then fails.
\<close>

fun rmatch :: "regex \<Rightarrow> char option \<Rightarrow> string \<Rightarrow> nat option" where
  "rmatch [] prev s = Some 0"
| "rmatch (Bol # r) prev s =
     (if prev = None \<or> prev = Some nl then rmatch r prev s else None)"
| "rmatch (Eol # r) prev s =
     (if s = [] \<or> hd s = nl then rmatch r prev s else None)"
| "rmatch (One a # r) prev [] = None"
| "rmatch (One a # r) prev (c # cs) =
     (if amatch a c then map_option Suc (rmatch r (Some c) cs) else None)"
| "rmatch (Star a # r) prev [] = rmatch r prev []"
| "rmatch (Star a # r) prev (c # cs) =
     (if amatch a c
      then (case rmatch (Star a # r) (Some c) cs of
              Some n \<Rightarrow> Some (Suc n)
            | None \<Rightarrow> rmatch r prev (c # cs))
      else rmatch r prev (c # cs))"

text \<open>
  Scanning for the leftmost match: the offset of its start from the current position and
  its length.
\<close>

fun rsearch :: "regex \<Rightarrow> char option \<Rightarrow> string \<Rightarrow> (nat \<times> nat) option" where
  "rsearch r prev [] = map_option (Pair 0) (rmatch r prev [])"
| "rsearch r prev (c # cs) =
     (case rmatch r prev (c # cs) of
        Some n \<Rightarrow> Some (0, n)
      | None \<Rightarrow> map_option (\<lambda>(i, n). (Suc i, n)) (rsearch r (Some c) cs))"

text \<open>\<open>pattern.search(s)\<close>: the span of the leftmost match, or \<open>None\<close>.\<close>

definition re_search :: "regex \<Rightarrow> string \<Rightarrow> (nat \<times> nat) option" where
  "re_search r s = map_option (\<lambda>(i, n). (i, i + n)) (rsearch r None s)"

text \<open>
  The loop of \<open>pattern.split\<close>: at most \<open>k\<close> further splits. The next scan starts where
  the last match ended and still sees the character before it. (Both patterns of this
  module consume a character in every match, so the engine's rule for empty matches
  never applies.)
\<close>

fun split_loop :: "regex \<Rightarrow> char option \<Rightarrow> string \<Rightarrow> nat \<Rightarrow> string list" where
  "split_loop r prev s 0 = [s]"
| "split_loop r prev s (Suc k) =
     (case rsearch r prev s of
        None \<Rightarrow> [s]
      | Some (i, n) \<Rightarrow>
          take i s #
          split_loop r (if i + n = 0 then prev else Some (s ! (i + n - 1))) (drop (i + n) s) k)"

text \<open>\<open>pattern.split(s, maxsplit)\<close>; \<open>maxsplit = 0\<close> means no limit.\<close>

definition re_split :: "regex \<Rightarrow> string \<Rightarrow> nat \<Rightarrow> string list" where
  "re_split r s maxsplit =
     split_loop r None s (if maxsplit = 0 then Suc (length s) else maxsplit)"

text \<open>\<open>re.compile(r"^---\s*$", re.MULTILINE)\<close> and \<open>re.compile(r"\S")\<close>.\<close>

definition FRONTMATTER_DELIMITER :: regex where
  "FRONTMATTER_DELIMITER =
     [Bol, One (Lit CHR ''-''), One (Lit CHR ''-''), One (Lit CHR ''-''), Star Space, Eol]"

definition NON_WHITESPACE :: regex where
  "NON_WHITESPACE = [One NonSpace]"

section \<open>\<open>core/dbt/clients/yaml_helper.py\<close>\<close>

definition YAML_ERROR_MESSAGE :: "string \<Rightarrow> string \<Rightarrow> string \<Rightarrow> string" where
  "YAML_ERROR_MESSAGE line_number nice_error raw_error =
     ''Syntax error near line '' @ line_number @ [nl] @
     ''------------------------------'' @ [nl] @
     nice_error @ [nl] @
     [nl] @
     ''Raw Error:'' @ [nl] @
     ''------------------------------'' @ [nl] @
     raw_error"

definition line_no :: "int \<Rightarrow> string \<Rightarrow> nat \<Rightarrow> string" where
  "line_no i ln width = ljust (str_int i) width @ ''| '' @ ln"

definition prefix_with_line_numbers :: "string \<Rightarrow> int \<Rightarrow> int \<Rightarrow> string" where
  "prefix_with_line_numbers string no_start no_end =
     (let line_list = split_nl string;
          numbers = py_range no_start no_end;
          relevant_lines = py_slice line_list no_start no_end
      in join [nl] (map (\<lambda>(i, ln). line_no (i + 1) ln 3) (zip numbers relevant_lines)))"

fun str_exc :: "yaml_exc \<Rightarrow> string" where
  "str_exc (YAMLError s) = s"
| "str_exc (MarkedYAMLError m s) = s"

text \<open>\<open>hasattr(e, "problem_mark")\<close>.\<close>

fun has_problem_mark :: "yaml_exc \<Rightarrow> bool" where
  "has_problem_mark (YAMLError s) = False"
| "has_problem_mark (MarkedYAMLError m s) = True"

text \<open>
  \<open>error.problem_mark\<close> fails on an exception without the attribute, \<open>mark.line\<close> on a
  mark that is \<open>None\<close>.
\<close>

fun contextualized_yaml_error :: "string \<Rightarrow> yaml_exc \<Rightarrow> exn + string" where
  "contextualized_yaml_error raw_contents (YAMLError s) = Inl AttributeError"
| "contextualized_yaml_error raw_contents (MarkedYAMLError None s) = Inl AttributeError"
| "contextualized_yaml_error raw_contents (MarkedYAMLError (Some mark) s) =
     (let min_line = max (line mark - 3) 0;
          max_line = line mark + 4;
          nice_error = prefix_with_line_numbers raw_contents min_line max_line
      in Inr (YAML_ERROR_MESSAGE (str_int (line mark + 1)) nice_error
                (str_exc (MarkedYAMLError (Some mark) s))))"

text \<open>
  \<open>yaml.load(contents, Loader=SafeLoader)\<close> belongs to PyYAML; the decoder is the
  parameter \<open>yaml_load\<close>, which returns a value or raises a YAML exception.
\<close>

type_synonym loader = "string \<Rightarrow> yaml_exc + yaml"

definition safe_load :: "loader \<Rightarrow> string \<Rightarrow> yaml_exc + yaml" where
  "safe_load yaml_load contents = yaml_load contents"

definition load_yaml_text :: "loader \<Rightarrow> string \<Rightarrow> exn + yaml" where
  "load_yaml_text yaml_load contents =
     (case safe_load yaml_load contents of
        Inr v \<Rightarrow> Inr v
      | Inl e \<Rightarrow>
          (if has_problem_mark e
           then (case contextualized_yaml_error contents e of
                   Inl x \<Rightarrow> Inl x
                 | Inr error \<Rightarrow> Inl (DbtValidationError error))
           else Inl (DbtValidationError (str_exc e))))"

text \<open>
  Modelled from the spec: \<open>dbt.events.functions.warn_or_error\<close>, the warn-or-escalate
  channel, is not part of these sources. Given a validation error it "either logs it as
  a warning and returns, or raises it as a fatal error, per process-wide strictness
  configuration". The state is the list of the calls made so far.
\<close>

definition warn_or_error :: "bool \<Rightarrow> exn \<Rightarrow> exn list \<Rightarrow> (exn + unit) \<times> exn list" where
  "warn_or_error strict e calls = (if strict then Inl e else Inr (), calls @ [e])"

text \<open>
  The body of \<open>parse_yaml_frontmatter\<close> after its guard: the unpacking of
  \<open>parts[1:]\<close>, the decode and the handler of the \<open>except\<close> clause.
\<close>

definition decode_frontmatter ::
  "loader \<Rightarrow> bool \<Rightarrow> string \<Rightarrow> string \<Rightarrow> string list \<Rightarrow> exn list
     \<Rightarrow> (exn + yaml \<times> string) \<times> exn list" where
  "decode_frontmatter yaml_load strict content on_error parts calls =
     (case tl parts of
        [yaml_content, after_footer] \<Rightarrow>
          (case safe_load yaml_load yaml_content of
             Inr parsed_yaml \<Rightarrow> (Inr (parsed_yaml, after_footer), calls)
           | Inl e \<Rightarrow>
               (if on_error = ''warn_or_error''
                then (case (if has_problem_mark e then contextualized_yaml_error content e
                            else Inr (str_exc e)) of
                        Inl x \<Rightarrow> (Inl x, calls)
                      | Inr error \<Rightarrow>
                          (case warn_or_error strict
                                  (DbtValidationError (''Error parsing YAML frontmatter!'' @ error))
                                  calls of
                             (Inl x, calls') \<Rightarrow> (Inl x, calls')
                           | (Inr u, calls') \<Rightarrow> (Inr (YNull, content), calls')))
                else (Inr (YNull, content), calls)))
      | _ \<Rightarrow> (Inl ValueError, calls))"

text \<open>
  \<open>parse_yaml_frontmatter(content, on_error)\<close>. The guard is
  \<open>len(parts != 3) or NON_WHITESPACE.search(parts[0]) is not None\<close>: the comparison is
  evaluated first and its result is handed to \<open>len\<close>.
\<close>

definition parse_yaml_frontmatter ::
  "loader \<Rightarrow> bool \<Rightarrow> string \<Rightarrow> string \<Rightarrow> exn list \<Rightarrow> (exn + yaml \<times> string) \<times> exn list" where
  "parse_yaml_frontmatter yaml_load strict content on_error calls =
     (let parts = re_split FRONTMATTER_DELIMITER content 2
      in case py_len (PyBool (py_ne (PyList parts) (PyInt 3))) of
           Inl x \<Rightarrow> (Inl x, calls)
         | Inr n \<Rightarrow>
             (case parts of
                [] \<Rightarrow> (Inl IndexError, calls)
              | p0 # rest \<Rightarrow>
                  if n \<noteq> 0 \<or> re_search NON_WHITESPACE p0 \<noteq> None
                  then (Inr (YNull, content), calls)
                  else decode_frontmatter yaml_load strict content on_error parts calls))"

text \<open>\<open>maybe_has_yaml_frontmatter\<close> returns the match object itself, or \<open>None\<close>.\<close>

definition maybe_has_yaml_frontmatter :: "string \<Rightarrow> (nat \<times> nat) option" where
  "maybe_has_yaml_frontmatter content = re_search FRONTMATTER_DELIMITER content"

definition truthy :: "'a option \<Rightarrow> bool" where
  "truthy m = (m \<noteq> None)"

section \<open>\<open>dbt/parser/docs.py\<close>\<close>

text \<open>
  The template syntax tree comes from Jinja2. The classes that matter here are
  \<open>Template(body)\<close>, \<open>Macro(name, args, defaults, body)\<close>, \<open>Output(nodes)\<close> and
  \<open>TemplateData(data)\<close>; \<open>Name\<close> is a variable reference, and \<open>Other\<close> stands for a
  node of any further class with its child nodes. Only \<open>Output\<close> has the attribute
  \<open>nodes\<close> among the statements of a body, and only \<open>TemplateData\<close> has \<open>data\<close>.
\<close>

datatype node =
    Template "node list"
  | Macro string "node list" "node list" "node list"
  | Output "node list"
  | TemplateData string
  | Name string
  | Other "node list"

fun iter_child_nodes :: "node \<Rightarrow> node list" where
  "iter_child_nodes (Template body) = body"
| "iter_child_nodes (Macro key args defaults body) = args @ defaults @ body"
| "iter_child_nodes (Output nodes) = nodes"
| "iter_child_nodes (TemplateData d) = []"
| "iter_child_nodes (Name n) = []"
| "iter_child_nodes (Other children) = children"

fun is_Macro :: "node \<Rightarrow> bool" where
  "is_Macro (Macro key args defaults body) = True"
| "is_Macro (Template body) = False"
| "is_Macro (Output nodes) = False"
| "is_Macro (TemplateData d) = False"
| "is_Macro (Name n) = False"
| "is_Macro (Other children) = False"

text \<open>
  \<open>node.find_all(jinja2.nodes.Macro)\<close>: for each child in order, the child itself when it
  is a macro, then what \<open>find_all\<close> gives below it. \<open>subtree\<close> is a node followed by
  all its descendants in that order.
\<close>

fun subtree :: "node \<Rightarrow> node list" where
  "subtree (Template body) = Template body # concat (map subtree body)"
| "subtree (Macro key args defaults body) =
     Macro key args defaults body # concat (map subtree (args @ defaults @ body))"
| "subtree (Output nodes) = Output nodes # concat (map subtree nodes)"
| "subtree (TemplateData d) = [TemplateData d]"
| "subtree (Name n) = [Name n]"
| "subtree (Other children) = Other children # concat (map subtree children)"

definition find_all_Macro :: "node \<Rightarrow> node list" where
  "find_all_Macro n = filter is_Macro (concat (map subtree (iter_child_nodes n)))"

text \<open>The attribute reads \<open>node.nodes\<close> and \<open>node.data\<close>.\<close>

fun get_nodes :: "node \<Rightarrow> exn + node list" where
  "get_nodes (Output nodes) = Inr nodes"
| "get_nodes (Template body) = Inl AttributeError"
| "get_nodes (Macro key args defaults body) = Inl AttributeError"
| "get_nodes (TemplateData d) = Inl AttributeError"
| "get_nodes (Name n) = Inl AttributeError"
| "get_nodes (Other children) = Inl AttributeError"

fun get_data :: "node \<Rightarrow> exn + string" where
  "get_data (TemplateData d) = Inr d"
| "get_data (Template body) = Inl AttributeError"
| "get_data (Macro key args defaults body) = Inl AttributeError"
| "get_data (Output nodes) = Inl AttributeError"
| "get_data (Name n) = Inl AttributeError"
| "get_data (Other children) = Inl AttributeError"

text \<open>
  Lines 68 to 71 of \<open>parse\<close>, on \<open>macro.body\<close>:
  \<open>if macro.body and macro.body[0].nodes: contents = macro.body[0].nodes[0].data\<close>,
  \<open>else: contents = ''\<close>.
\<close>

definition macro_contents :: "node list \<Rightarrow> exn + string" where
  "macro_contents body =
     (case body of
        [] \<Rightarrow> Inr []
      | b0 # bs \<Rightarrow>
          (case get_nodes b0 of
             Inl e \<Rightarrow> Inl e
           | Inr nodes \<Rightarrow> (case nodes of [] \<Rightarrow> Inr [] | n0 # ns \<Rightarrow> get_data n0)))"

text \<open>
  \<open>ParsedDocumentation(**deep_merge(docfile.serialize(), {...}))\<close>: the fields of the
  file, and the three that the parser adds.
\<close>

definition make_parsed ::
  "UnparsedDocumentationFile \<Rightarrow> string \<Rightarrow> string \<Rightarrow> string \<Rightarrow> ParsedDocumentation" where
  "make_parsed docfile nm uid contents =
     \<lparr>root_path = root_path docfile, resource_type = resource_type docfile,
      path = path docfile, original_file_path = original_file_path docfile,
      package_name = package_name docfile, file_contents = file_contents docfile,
      name = nm, unique_id = uid, block_contents = contents\<rparr>"

text \<open>
  The loop of \<open>parse\<close> over the macros found. \<open>parse\<close> is a generator: its result is
  the list of the records it yields and the exception that ends it, if one does.
  \<open>dbt.utils.DOCS_PREFIX\<close> and \<open>get_fqn\<close> of the base parser are not part of these
  sources and are parameters; \<open>all_projects\<close> is a dictionary.
\<close>

fun parse_macros ::
  "string \<Rightarrow> (string \<Rightarrow> 'p \<Rightarrow> exn + string list) \<Rightarrow> (string \<rightharpoonup> 'p)
     \<Rightarrow> UnparsedDocumentationFile \<Rightarrow> node list \<Rightarrow> ParsedDocumentation list \<times> exn option" where
  "parse_macros DOCS_PREFIX get_fqn all_projects docfile [] = ([], None)"
| "parse_macros DOCS_PREFIX get_fqn all_projects docfile (Macro key args defaults body # ms) =
     (if \<not> startswith key DOCS_PREFIX
      then parse_macros DOCS_PREFIX get_fqn all_projects docfile ms
      else
        (let nm = py_replace key DOCS_PREFIX [];
             uid = package_name docfile @ ''.'' @ nm
         in case all_projects (package_name docfile) of
              None \<Rightarrow> ([], Some (KeyError (package_name docfile)))
            | Some project \<Rightarrow>
                (case get_fqn (path docfile) project of
                   Inl e \<Rightarrow> ([], Some e)
                 | Inr fqn \<Rightarrow>
                     (case macro_contents body of
                        Inl e \<Rightarrow> ([], Some e)
                      | Inr contents \<Rightarrow>
                          (case parse_macros DOCS_PREFIX get_fqn all_projects docfile ms of
                             (yielded, stop) \<Rightarrow>
                               (make_parsed docfile nm uid contents # yielded, stop))))))"
| "parse_macros DOCS_PREFIX get_fqn all_projects docfile (other # ms) =
     parse_macros DOCS_PREFIX get_fqn all_projects docfile ms"

text \<open>
  \<open>parse(all_projects, root_project_config, docfile)\<close>; \<open>env.parse\<close> is Jinja2's static
  parser, a parameter that returns the tree or raises.
\<close>

definition parse ::
  "string \<Rightarrow> (string \<Rightarrow> exn + node) \<Rightarrow> (string \<Rightarrow> 'p \<Rightarrow> exn + string list)
     \<Rightarrow> (string \<rightharpoonup> 'p) \<Rightarrow> 'p \<Rightarrow> UnparsedDocumentationFile
     \<Rightarrow> ParsedDocumentation list \<times> exn option" where
  "parse DOCS_PREFIX env_parse get_fqn all_projects root_project_config docfile =
     (case env_parse (file_contents docfile) of
        Inl e \<Rightarrow> ([], Some e)
      | Inr ast \<Rightarrow> parse_macros DOCS_PREFIX get_fqn all_projects docfile (find_all_Macro ast))"

text \<open>What the file discovery returns for one file.\<close>

record file_match =
  absolute_path :: string
  relative_path :: string
  searched_path :: string

text \<open>\<open>os.path.join(a, b)\<close> for two POSIX paths.\<close>

definition os_path_join :: "string \<Rightarrow> string \<Rightarrow> string" where
  "os_path_join a b =
     (if startswith b ''/'' \<and> b \<noteq> [] then b
      else if a = [] \<or> last a = CHR ''/'' then a @ b
      else a @ ''/'' @ b)"

text \<open>
  Modelled from the spec: \<open>NodeType.Documentation\<close> of \<open>dbt.node_types\<close> is not part of
  these sources; the "resource-type tag" is "fixed to \<open>documentation\<close>".
\<close>

definition NodeType_Documentation :: string where
  "NodeType_Documentation = ''documentation''"

text \<open>
  \<open>load_file(package_name, root_dir, relative_dirs)\<close>. The discovery and the file read
  (\<open>dbt.clients.system\<close>) are parameters. The base name that the source computes from
  the relative path is never used.
\<close>

definition load_file ::
  "(string \<Rightarrow> string list \<Rightarrow> string \<Rightarrow> file_match list) \<Rightarrow> (string \<Rightarrow> string)
     \<Rightarrow> string \<Rightarrow> string \<Rightarrow> string list \<Rightarrow> UnparsedDocumentationFile list" where
  "load_file find_matching load_file_contents pkg root_dir relative_dirs =
     (let extensions = [''[!.#~]*.md'', ''[!.#~]*.sql''];
          file_matches = concat (map (find_matching root_dir relative_dirs) extensions)
      in map (\<lambda>fm.
            \<lparr>root_path = root_dir,
             resource_type = NodeType_Documentation,
             path = relative_path fm,
             original_file_path = os_path_join (searched_path fm) (relative_path fm),
             package_name = pkg,
             file_contents = load_file_contents (absolute_path fm)\<rparr>) file_matches)"

text \<open>
  Modelled from the spec: \<open>dbt.exceptions.raise_duplicate_resource_name\<close> is not part of
  these sources. On a key that already exists the builder is to "fail with a
  \<open>DuplicateResourceError\<close> naming both the previously stored record and the new one".
\<close>

definition raise_duplicate_resource_name ::
  "ParsedDocumentation \<Rightarrow> ParsedDocumentation \<Rightarrow> exn + unit" where
  "raise_duplicate_resource_name stored new = Inl (DuplicateResourceError stored new)"

type_synonym registry = "string \<rightharpoonup> ParsedDocumentation"

text \<open>
  The inner loop of \<open>load_and_parse\<close> over the records that one \<open>parse\<close> yields. The
  result is \<open>to_return\<close> when the loop is left, and the exception that left it, if any.
\<close>

fun insert_parsed :: "registry \<Rightarrow> ParsedDocumentation list \<Rightarrow> registry \<times> exn option" where
  "insert_parsed to_return [] = (to_return, None)"
| "insert_parsed to_return (parsed # ps) =
     (case to_return (unique_id parsed) of
        Some stored \<Rightarrow>
          (case raise_duplicate_resource_name stored parsed of
             Inl e \<Rightarrow> (to_return, Some e)
           | Inr u \<Rightarrow> insert_parsed (to_return(unique_id parsed \<mapsto> parsed)) ps)
      | None \<Rightarrow> insert_parsed (to_return(unique_id parsed \<mapsto> parsed)) ps)"

text \<open>The outer loop over the files; an exception that ends a \<open>parse\<close> ends the loop.\<close>

fun load_and_parse_loop ::
  "string \<Rightarrow> (string \<Rightarrow> exn + node) \<Rightarrow> (string \<Rightarrow> 'p \<Rightarrow> exn + string list)
     \<Rightarrow> (string \<rightharpoonup> 'p) \<Rightarrow> 'p \<Rightarrow> registry \<Rightarrow> UnparsedDocumentationFile list
     \<Rightarrow> registry \<times> exn option" where
  "load_and_parse_loop DOCS_PREFIX env_parse get_fqn all_projects root_project to_return [] =
     (to_return, None)"
| "load_and_parse_loop DOCS_PREFIX env_parse get_fqn all_projects root_project to_return
     (docfile # rest) =
     (case parse DOCS_PREFIX env_parse get_fqn all_projects root_project docfile of
        (yielded, stop) \<Rightarrow>
          (case insert_parsed to_return yielded of
             (to_return', Some e) \<Rightarrow> (to_return', Some e)
           | (to_return', None) \<Rightarrow>
               (case stop of
                  Some e \<Rightarrow> (to_return', Some e)
                | None \<Rightarrow>
                    load_and_parse_loop DOCS_PREFIX env_parse get_fqn all_projects root_project
                      to_return' rest)))"

text \<open>
  \<open>load_and_parse(package_name, root_project, all_projects, root_dir, relative_dirs)\<close>,
  with the files that \<open>load_file\<close> yields.
\<close>

definition load_and_parse_files ::
  "string \<Rightarrow> (string \<Rightarrow> exn + node) \<Rightarrow> (string \<Rightarrow> 'p \<Rightarrow> exn + string list)
     \<Rightarrow> 'p \<Rightarrow> (string \<rightharpoonup> 'p) \<Rightarrow> UnparsedDocumentationFile list \<Rightarrow> exn + registry" where
  "load_and_parse_files DOCS_PREFIX env_parse get_fqn root_project all_projects docfiles =
     (case load_and_parse_loop DOCS_PREFIX env_parse get_fqn all_projects root_project
             Map.empty docfiles of
        (to_return, None) \<Rightarrow> Inr to_return
      | (to_return, Some e) \<Rightarrow> Inl e)"

definition load_and_parse ::
  "string \<Rightarrow> (string \<Rightarrow> exn + node) \<Rightarrow> (string \<Rightarrow> 'p \<Rightarrow> exn + string list)
     \<Rightarrow> (string \<Rightarrow> string list \<Rightarrow> string \<Rightarrow> file_match list) \<Rightarrow> (string \<Rightarrow> string)
     \<Rightarrow> string \<Rightarrow> 'p \<Rightarrow> (string \<rightharpoonup> 'p) \<Rightarrow> string \<Rightarrow> string list \<Rightarrow> exn + registry" where
  "load_and_parse DOCS_PREFIX env_parse get_fqn find_matching load_file_contents
     pkg root_project all_projects root_dir relative_dirs =
     load_and_parse_files DOCS_PREFIX env_parse get_fqn root_project all_projects
       (load_file find_matching load_file_contents pkg root_dir relative_dirs)"

section \<open>Notions used to state the properties\<close>

text \<open>
  The context window in the words of the specification: the lines with 0-based index
  in \<open>[line - 3, line + 4)\<close>, cut to the \<open>n\<close> lines of the document and to 0 below,
  each shown with its 1-based number, left-justified to width 3, and \<open>| \<close>.
\<close>

definition context_window :: "int \<Rightarrow> nat \<Rightarrow> nat list" where
  "context_window mark_line n = [nat (mark_line - 3) ..< min (nat (mark_line + 4)) n]"

definition numbered_line :: "string list \<Rightarrow> nat \<Rightarrow> string" where
  "numbered_line lines i = ljust (str_int (int i + 1)) 3 @ ''| '' @ lines ! i"

text \<open>
  The body shapes that the contents extraction assumes: no body, a leading output node
  without children, or a leading output node that starts with literal template data.
\<close>

fun shape_contents :: "node list \<Rightarrow> string option" where
  "shape_contents [] = Some []"
| "shape_contents (Output [] # bs) = Some []"
| "shape_contents (Output (TemplateData d # ns) # bs) = Some d"
| "shape_contents (b # bs) = None"

text \<open>
  The declared name and the body of the macro definitions of a tree whose name begins
  with the prefix, in document order.
\<close>

fun macro_fields :: "node \<Rightarrow> (string \<times> node list) list" where
  "macro_fields (Macro key args defaults body) = [(key, body)]"
| "macro_fields (Template body) = []"
| "macro_fields (Output nodes) = []"
| "macro_fields (TemplateData d) = []"
| "macro_fields (Name n) = []"
| "macro_fields (Other children) = []"

definition docs_macros :: "string \<Rightarrow> node \<Rightarrow> (string \<times> node list) list" where
  "docs_macros DOCS_PREFIX ast =
     filter (\<lambda>(key, body). startswith key DOCS_PREFIX)
       (concat (map macro_fields (find_all_Macro ast)))"

text \<open>The record expected for one such macro.\<close>

definition candidate ::
  "string \<Rightarrow> UnparsedDocumentationFile \<Rightarrow> string \<times> node list \<Rightarrow> ParsedDocumentation" where
  "candidate DOCS_PREFIX docfile m =
     make_parsed docfile (py_replace (fst m) DOCS_PREFIX [])
       (package_name docfile @ ''.'' @ py_replace (fst m) DOCS_PREFIX [])
       (case shape_contents (snd m) of Some c \<Rightarrow> c | None \<Rightarrow> [])"

text \<open>\<open>old in s\<close>: the string \<open>old\<close> occurs somewhere in \<open>s\<close>.\<close>

fun occurs :: "string \<Rightarrow> string \<Rightarrow> bool" where
  "occurs old [] = (old = [])"
| "occurs old (c # cs) = (take (length old) (c # cs) = old \<or> occurs old cs)"

text \<open>
  The records that the parses of a batch yield, in order, up to and including those of
  the first parse that ends in an exception; and the registry after storing a list of
  records one by one.
\<close>

fun yielded_records ::
  "string \<Rightarrow> (string \<Rightarrow> exn + node) \<Rightarrow> (string \<Rightarrow> 'p \<Rightarrow> exn + string list)
     \<Rightarrow> (string \<rightharpoonup> 'p) \<Rightarrow> 'p \<Rightarrow> UnparsedDocumentationFile list
     \<Rightarrow> ParsedDocumentation list" where
  "yielded_records DOCS_PREFIX env_parse get_fqn all_projects root_project [] = []"
| "yielded_records DOCS_PREFIX env_parse get_fqn all_projects root_project (docfile # rest) =
     (case parse DOCS_PREFIX env_parse get_fqn all_projects root_project docfile of
        (yielded, None) \<Rightarrow>
          yielded @ yielded_records DOCS_PREFIX env_parse get_fqn all_projects root_project rest
      | (yielded, Some e) \<Rightarrow> yielded)"

definition store :: "registry \<Rightarrow> ParsedDocumentation \<Rightarrow> registry" where
  "store to_return parsed = to_return(unique_id parsed \<mapsto> parsed)"

definition registry_of :: "ParsedDocumentation list \<Rightarrow> registry" where
  "registry_of ps = foldl store Map.empty ps"

section \<open>Sample inputs\<close>

text \<open>
  A decoder that knows the document of the round-trip property and rejects every other
  text with a marked error, standing in for PyYAML where a statement needs a concrete
  decoder.
\<close>

definition sample_yaml_load :: loader where
  "sample_yaml_load contents =
     (if contents = ''\<newline>a: 1\<newline>'' then Inr (YMap [(YStr ''a'', YInt 1)])
      else Inl (MarkedYAMLError (Some \<lparr>line = 1, column = 4\<rparr>)
                  ''while parsing a flow node''))"

definition round_trip_document :: string where
  "round_trip_document = ''---\<newline>a: 1\<newline>---\<newline>BODY''"

definition malformed_document :: string where
  "malformed_document = ''---\<newline>a: [\<newline>---\<newline>BODY''"

definition twenty_lines :: string where
  "twenty_lines =
     ''l0\<newline>l1\<newline>l2\<newline>l3\<newline>l4\<newline>l5\<newline>l6\<newline>l7\<newline>l8\<newline>l9\<newline>l10\<newline>l11\<newline>l12\<newline>l13\<newline>l14\<newline>l15\<newline>l16\<newline>l17\<newline>l18\<newline>l19''"

text \<open>
  The trees that Jinja2 builds for four small templates; \<open>dbt_docs__\<close> is the value of
  \<open>DOCS_PREFIX\<close> in \<open>dbt.utils\<close>.
\<close>

definition hello_template :: string where
  "hello_template = ''{% macro dbt_docs__foo() %}hello{% endmacro %}''"

definition variable_template :: string where
  "variable_template = ''{% macro dbt_docs__foo() %}{{ x }}{% endmacro %}''"

definition mixed_template :: string where
  "mixed_template =
     ''{% macro dbt_docs__a_dbt_docs__b() %}hi{% endmacro %}{% macro dbt_docs__c() %}{{ x }}{% endmacro %}''"

definition plain_template :: string where
  "plain_template = ''{% macro helper() %}x{% endmacro %}{% macro dbt_docs__bar() %}{% endmacro %}''"

definition sample_env_parse :: "string \<Rightarrow> exn + node" where
  "sample_env_parse source =
     (if source = hello_template
      then Inr (Template [Macro ''dbt_docs__foo'' [] [] [Output [TemplateData ''hello'']]])
      else if source = variable_template
      then Inr (Template [Macro ''dbt_docs__foo'' [] [] [Output [Name ''x'']]])
      else if source = mixed_template
      then Inr (Template
                  [Macro ''dbt_docs__a_dbt_docs__b'' [] [] [Output [TemplateData ''hi'']],
                   Macro ''dbt_docs__c'' [] [] [Output [Name ''x'']]])
      else if source = plain_template
      then Inr (Template
                  [Macro ''helper'' [] [] [Output [TemplateData ''x'']],
                   Macro ''dbt_docs__bar'' [] [] []])
      else Inl (TemplateSyntaxError source))"

definition sample_get_fqn :: "string \<Rightarrow> unit \<Rightarrow> exn + string list" where
  "sample_get_fqn p project = Inr [p]"

definition sample_projects :: "string \<rightharpoonup> unit" where
  "sample_projects = [''pkg'' \<mapsto> ()]"

definition sample_docfile :: "string \<Rightarrow> string \<Rightarrow> UnparsedDocumentationFile" where
  "sample_docfile p source =
     \<lparr>root_path = ''/project'', resource_type = NodeType_Documentation, path = p,
      original_file_path = os_path_join ''docs'' p, package_name = ''pkg'',
      file_contents = source\<rparr>"

text \<open>A discovery that finds two files, both with the text of \<open>hello_template\<close>.\<close>

definition sample_find_matching :: "string \<Rightarrow> string list \<Rightarrow> string \<Rightarrow> file_match list" where
  "sample_find_matching root_dir relative_dirs pattern =
     (if pattern = ''[!.#~]*.md''
      then [\<lparr>absolute_path = ''/project/docs/a.md'', relative_path = ''a.md'',
              searched_path = ''docs''\<rparr>,
            \<lparr>absolute_path = ''/project/docs/b.md'', relative_path = ''b.md'',
              searched_path = ''docs''\<rparr>]
      else [])"

definition sample_load_file_contents :: "string \<Rightarrow> string" where
  "sample_load_file_contents absolute = hello_template"

section \<open>Properties of \<open>yaml_helper\<close>\<close>

subsection \<open>The guard of the frontmatter extraction\<close>

text \<open>
  C2: for every input string and either value of \<open>on_error\<close>,
  \<open>parse_yaml_frontmatter\<close> raises a \<open>TypeError\<close> and never returns a tuple. The guard
  applies \<open>len\<close> to the boolean \<open>parts != 3\<close> before anything else is looked at; the
  warn-or-escalate channel is not called.
\<close>

theorem parse_yaml_frontmatter_raises_TypeError:
  "parse_yaml_frontmatter yaml_load strict content on_error calls = (Inl TypeError, calls)"
  by (simp add: parse_yaml_frontmatter_def Let_def)

theorem parse_yaml_frontmatter_raises_TypeError_witness:
  "parse_yaml_frontmatter sample_yaml_load False round_trip_document ''warn_or_error'' []
     = (Inl TypeError, [])"
  by (rule parse_yaml_frontmatter_raises_TypeError)

text \<open>
  C1: a document without frontmatter should come back as \<open>(None, content)\<close>. On the
  document \<open>no frontmatter here\<close> under \<open>ignore\<close> the call raises instead.
\<close>

theorem no_frontmatter_raises:
  "parse_yaml_frontmatter yaml_load strict ''no frontmatter here'' ''ignore'' calls
     = (Inl TypeError, calls)"
  by (simp add: parse_yaml_frontmatter_def Let_def)

theorem no_frontmatter_raises_witness:
  "parse_yaml_frontmatter sample_yaml_load False ''no frontmatter here'' ''ignore'' []
     = (Inl TypeError, [])"
  by (rule no_frontmatter_raises)

text \<open>
  C4: malformed YAML between two delimiters under \<open>ignore\<close> should come back as
  \<open>(None, content)\<close>. The call raises before the decoder is reached.
\<close>

theorem malformed_ignore_raises:
  "parse_yaml_frontmatter yaml_load strict malformed_document ''ignore'' calls
     = (Inl TypeError, calls)"
  by (simp add: parse_yaml_frontmatter_def Let_def)

theorem malformed_ignore_raises_witness:
  "parse_yaml_frontmatter sample_yaml_load False malformed_document ''ignore'' []
     = (Inl TypeError, [])"
  by (rule malformed_ignore_raises)

text \<open>
  C5: malformed YAML between two delimiters under \<open>warn_or_error\<close> should reach the
  warn-or-escalate channel once. The call raises with no call made to the channel.
\<close>

theorem malformed_warn_or_error_raises:
  "parse_yaml_frontmatter yaml_load strict malformed_document ''warn_or_error'' calls
     = (Inl TypeError, calls)"
  by (simp add: parse_yaml_frontmatter_def Let_def)

theorem malformed_warn_or_error_raises_witness:
  "parse_yaml_frontmatter sample_yaml_load False malformed_document ''warn_or_error'' []
     = (Inl TypeError, [])"
  by (rule malformed_warn_or_error_raises)

subsection \<open>The round-trip document\<close>

lemma round_trip_split:
  "re_split FRONTMATTER_DELIMITER round_trip_document 2
     = ['''', ''\<newline>a: 1\<newline>'', ''\<newline>BODY'']"
  by code_simp

text \<open>
  C3: for \<open>---\na: 1\n---\nBODY\<close> the extraction should return the mapping
  \<open>{"a": 1}\<close> paired with the body remainder. With every decoder and under either
  policy the call raises at its guard instead, before the decoder is reached.
\<close>

theorem round_trip_raises:
  "parse_yaml_frontmatter yaml_load strict round_trip_document on_error calls
     = (Inl TypeError, calls)"
  by (simp add: parse_yaml_frontmatter_def Let_def)

theorem round_trip_raises_witness:
  "parse_yaml_frontmatter sample_yaml_load False round_trip_document ''ignore'' []
     = (Inl TypeError, [])"
  by (rule round_trip_raises)

subsection \<open>The pre-filter\<close>

text \<open>
  C10: whenever the split of the extraction finds two delimiters (three segments),
  \<open>maybe_has_yaml_frontmatter\<close> returns a match, which is truthy; it also returns one
  for \<open>---\<close>, where there is a single delimiter and the split has two segments.
\<close>

theorem maybe_has_yaml_frontmatter_no_false_negative:
  "(length (re_split FRONTMATTER_DELIMITER content 2) = 3
      \<longrightarrow> truthy (maybe_has_yaml_frontmatter content))
   \<and> truthy (maybe_has_yaml_frontmatter ''---'')
   \<and> length (re_split FRONTMATTER_DELIMITER ''---'' 2) = 2"
proof -
  have "truthy (maybe_has_yaml_frontmatter content)"
    if "length (re_split FRONTMATTER_DELIMITER content 2) = 3"
    using that
    by (auto simp: re_split_def maybe_has_yaml_frontmatter_def re_search_def truthy_def
          numeral_2_eq_2 split: option.splits)
  moreover have "truthy (maybe_has_yaml_frontmatter ''---'')"
    by code_simp
  moreover have "length (re_split FRONTMATTER_DELIMITER ''---'' 2) = 2"
    by code_simp
  ultimately show ?thesis by blast
qed

theorem maybe_has_yaml_frontmatter_witness:
  "length (re_split FRONTMATTER_DELIMITER round_trip_document 2) = 3
   \<and> truthy (maybe_has_yaml_frontmatter round_trip_document)"
proof -
  have h: "length (re_split FRONTMATTER_DELIMITER round_trip_document 2) = 3"
    by (simp add: round_trip_split)
  show ?thesis
    using h maybe_has_yaml_frontmatter_no_false_negative [of round_trip_document]
    by blast
qed

subsection \<open>The context window of an error message\<close>

lemma zip_range_slice:
  assumes "0 \<le> a" and "0 \<le> b"
  shows "zip (py_range a b) (py_slice xs a b) =
         map (\<lambda>i. (int i, xs ! i)) [nat a ..< min (nat b) (length xs)]"
proof (rule nth_equalityI)
  show "length (zip (py_range a b) (py_slice xs a b)) =
        length (map (\<lambda>i. (int i, xs ! i)) [nat a ..< min (nat b) (length xs)])"
    using assms by (auto simp: py_range_def py_slice_def slice_bound_def Let_def)
next
  fix i
  assume len: "i < length (zip (py_range a b) (py_slice xs a b))"
  then have i: "i < nat (b - a)" "i < min (nat b) (length xs) - min (nat a) (length xs)"
    using assms by (auto simp: py_range_def py_slice_def slice_bound_def Let_def)
  then have lo: "min (nat a) (length xs) = nat a" by linarith
  have sl: "py_slice xs a b = take (min (nat b) (length xs) - nat a) (drop (nat a) xs)"
    using assms lo by (simp add: py_slice_def slice_bound_def Let_def)
  have 1: "py_range a b ! i = a + int i"
    unfolding py_range_def using i(1) by (intro nth_upto) linarith
  have 2: "py_slice xs a b ! i = xs ! (nat a + i)"
    unfolding sl using i(2) lo by simp
  have k: "nat a + i < min (nat b) (length xs)"
    using i(2) unfolding lo by (simp only: less_diff_conv add.commute[of i])
  have 3: "[nat a ..< min (nat b) (length xs)] ! i = nat a + i"
    using k by (rule nth_upt)
  have 4: "i < length [nat a ..< min (nat b) (length xs)]"
    using k by (simp only: length_upt less_diff_conv add.commute[of i])
  have "zip (py_range a b) (py_slice xs a b) ! i = (py_range a b ! i, py_slice xs a b ! i)"
    using len by (simp only: nth_zip length_zip min_less_iff_conj)
  also have "\<dots> = (a + int i, xs ! (nat a + i))"
    by (simp only: 1 2)
  also have "\<dots> = (int ([nat a ..< min (nat b) (length xs)] ! i),
                       xs ! ([nat a ..< min (nat b) (length xs)] ! i))"
    using assms(1) by (simp only: 3) simp
  also have "\<dots> = map (\<lambda>i. (int i, xs ! i)) [nat a ..< min (nat b) (length xs)] ! i"
    using 4 by (simp only: nth_map)
  finally show "zip (py_range a b) (py_slice xs a b) ! i =
        map (\<lambda>i. (int i, xs ! i)) [nat a ..< min (nat b) (length xs)] ! i" .
qed

text \<open>
  C9: for a decode error with a mark at 0-based line \<open>l\<close>, the message names line
  \<open>l + 1\<close> and shows the lines with index in \<open>[l - 3, l + 4)\<close>, cut to the document,
  each with its 1-based number left-justified to width 3 and \<open>| \<close>.
\<close>

theorem contextualized_yaml_error_window:
  assumes "0 \<le> line mark"
  shows "contextualized_yaml_error raw (MarkedYAMLError (Some mark) s) =
     Inr (''Syntax error near line '' @ str_int (line mark + 1) @ [nl] @
          ''------------------------------'' @ [nl] @
          join [nl] (map (numbered_line (split_nl raw))
                       (context_window (line mark) (length (split_nl raw)))) @ [nl] @
          [nl] @ ''Raw Error:'' @ [nl] @
          ''------------------------------'' @ [nl] @ s)"
proof -
  have lo: "nat (max (line mark - 3) 0) = nat (line mark - 3)"
    by (simp add: max_def)
  have "prefix_with_line_numbers raw (max (line mark - 3) 0) (line mark + 4) =
        join [nl] (map (numbered_line (split_nl raw))
                       (context_window (line mark) (length (split_nl raw))))"
    using assms
    unfolding prefix_with_line_numbers_def Let_def
    by (subst zip_range_slice)
       (simp_all add: context_window_def numbered_line_def[abs_def] line_no_def o_def lo)
  then show ?thesis
    by (simp add: YAML_ERROR_MESSAGE_def Let_def)
qed

lemma twenty_lines_window:
  "length (split_nl twenty_lines) = 20 \<and> context_window 10 20 = [7, 8, 9, 10, 11, 12, 13]"
  by code_simp

lemma twenty_lines_rendered:
  "join [nl] (map (numbered_line (split_nl twenty_lines)) [7, 8, 9, 10, 11, 12, 13]) =
   ''8  | l7\<newline>9  | l8\<newline>10 | l9\<newline>11 | l10\<newline>12 | l11\<newline>13 | l12\<newline>14 | l13''"
  by code_simp

theorem contextualized_yaml_error_window_witness:
  "0 \<le> line \<lparr>line = 10, column = 2\<rparr>
   \<and> length (split_nl twenty_lines) = 20
   \<and> context_window 10 20 = [7, 8, 9, 10, 11, 12, 13]
   \<and> contextualized_yaml_error twenty_lines
        (MarkedYAMLError (Some \<lparr>line = 10, column = 2\<rparr>) ''boom'') =
      Inr (''Syntax error near line 11'' @ [nl] @
           ''------------------------------'' @ [nl] @
           ''8  | l7\<newline>9  | l8\<newline>10 | l9\<newline>11 | l10\<newline>12 | l11\<newline>13 | l12\<newline>14 | l13''
           @ [nl] @ [nl] @ ''Raw Error:'' @ [nl] @
           ''------------------------------'' @ [nl] @ ''boom'')"
proof -
  have h: "0 \<le> line \<lparr>line = 10, column = 2\<rparr>" by simp
  have n: "str_int 11 = ''11''" by code_simp
  show ?thesis
    using h contextualized_yaml_error_window [OF h, of twenty_lines "''boom''"]
      twenty_lines_window twenty_lines_rendered n
    by simp
qed

section \<open>Properties of \<open>docs\<close>\<close>

subsection \<open>The contents of a documentation macro\<close>

lemma macro_contents_shape:
  "macro_contents body =
     (case shape_contents body of Some c \<Rightarrow> Inr c | None \<Rightarrow> Inl AttributeError)"
  by (cases body rule: shape_contents.cases) (simp_all add: macro_contents_def)

lemma hello_parse:
  "parse ''dbt_docs__'' sample_env_parse sample_get_fqn sample_projects ()
     (sample_docfile ''a.md'' hello_template)
   = ([make_parsed (sample_docfile ''a.md'' hello_template) ''foo'' ''pkg.foo'' ''hello''], None)"
  by code_simp

lemma variable_parse:
  "parse ''dbt_docs__'' sample_env_parse sample_get_fqn sample_projects ()
     (sample_docfile ''a.md'' variable_template)
   = ([], Some AttributeError)"
  by code_simp

text \<open>
  C8, as stated: for every surviving macro the contents are the data of the first child
  of the first body element when there is one, and the empty string otherwise, without
  raising. For a body that starts with a variable, as in
  \<open>{% macro dbt_docs__foo() %}{{ x }}{% endmacro %}\<close>, the first child has no \<open>data\<close>
  and the scan ends in an \<open>AttributeError\<close> with no candidate.
\<close>

theorem macro_contents_counterexample:
  "parse ''dbt_docs__'' sample_env_parse sample_get_fqn sample_projects ()
     (sample_docfile ''a.md'' variable_template)
   = ([], Some AttributeError)
   \<and> macro_contents [Output [Name ''x'']] = Inl AttributeError"
  by (simp add: variable_parse macro_contents_def)

text \<open>
  C8, amended: the contents are the empty string when the body is empty or starts with
  an output node without children, and the data of the first child when the body starts
  with an output node whose first child is literal template data; for every other body
  the attribute read raises \<open>AttributeError\<close>. The template with the one macro
  \<open>dbt_docs__foo\<close> and the body \<open>hello\<close> yields exactly one candidate, with bare name
  \<open>foo\<close> and contents \<open>hello\<close>.
\<close>

theorem macro_contents_by_shape:
  "macro_contents body =
     (case shape_contents body of Some c \<Rightarrow> Inr c | None \<Rightarrow> Inl AttributeError)
   \<and> parse ''dbt_docs__'' sample_env_parse sample_get_fqn sample_projects ()
       (sample_docfile ''a.md'' hello_template)
     = ([make_parsed (sample_docfile ''a.md'' hello_template) ''foo'' ''pkg.foo'' ''hello''],
        None)"
  using macro_contents_shape hello_parse by simp

theorem macro_contents_by_shape_witness:
  "macro_contents [Output [TemplateData ''hello'']] = Inr ''hello''
   \<and> macro_contents [] = Inr ''''"
  using macro_contents_by_shape [of "[Output [TemplateData ''hello'']]"] macro_contents_by_shape [of "[]"] by simp

subsection \<open>The candidates of a scan\<close>

lemma parse_macros_candidates:
  assumes "all_projects (package_name docfile) = Some project"
    and "get_fqn (path docfile) project = Inr fqn"
    and "\<forall>m \<in> set (filter (\<lambda>(key, body). startswith key P) (concat (map macro_fields ms))).
           shape_contents (snd m) \<noteq> None"
  shows "parse_macros P get_fqn all_projects docfile ms =
           (map (candidate P docfile)
              (filter (\<lambda>(key, body). startswith key P) (concat (map macro_fields ms))), None)"
  using assms(3)
proof (induction ms)
  case Nil
  show ?case by simp
next
  case (Cons m ms)
  then have IH: "parse_macros P get_fqn all_projects docfile ms =
           (map (candidate P docfile)
              (filter (\<lambda>(key, body). startswith key P) (concat (map macro_fields ms))), None)"
    by simp
  show ?case
  proof (cases m)
    case (Macro key args defaults body)
    show ?thesis
    proof (cases "startswith key P")
      case True
      with Cons.prems Macro obtain c where c: "shape_contents body = Some c"
        by auto
      show ?thesis
        using True c IH assms(1,2) Macro
        by (simp add: Let_def macro_contents_shape candidate_def)
    next
      case False
      then show ?thesis using IH Macro by simp
    qed
  qed (use IH in simp_all)
qed

lemma replace_nonempty_absent:
  "\<not> occurs (old0 # old_rest) s \<Longrightarrow> replace_nonempty s old0 old_rest new = s"
  by (induction s) auto

lemma py_replace_strips_prefix:
  assumes "startswith key P" and "P \<noteq> []" and "\<not> occurs P (drop (length P) key)"
  shows "py_replace key P [] = drop (length P) key"
proof -
  obtain old0 old_rest where P: "P = old0 # old_rest"
    using assms(2) by (cases P) auto
  obtain c cs where key: "key = c # cs"
    using assms(1) P by (cases key) (auto simp: startswith_def)
  have hd: "c = old0" "take (length old_rest) cs = old_rest"
    using assms(1) by (simp_all add: startswith_def P key)
  have "replace_nonempty (drop (length old_rest) cs) old0 old_rest [] = drop (length old_rest) cs"
    using assms(3) by (intro replace_nonempty_absent) (simp add: P key)
  then show ?thesis
    using hd by (simp add: py_replace_def P key)
qed

lemma set_macro_fields:
  "set (concat (map macro_fields ns)) =
     {(key, body). \<exists>args defaults. Macro key args defaults body \<in> set ns}"
proof (induction ns)
  case Nil
  show ?case by simp
next
  case (Cons n ns)
  show ?case by (cases n) (use Cons in auto)
qed

lemma mixed_parse:
  "parse ''dbt_docs__'' sample_env_parse sample_get_fqn sample_projects ()
     (sample_docfile ''a.md'' mixed_template)
   = ([make_parsed (sample_docfile ''a.md'' mixed_template) ''a_b'' ''pkg.a_b'' ''hi''],
      Some AttributeError)"
  by code_simp

lemma plain_tree:
  "sample_env_parse (file_contents (sample_docfile ''a.md'' plain_template))
     = Inr (Template [Macro ''helper'' [] [] [Output [TemplateData ''x'']],
                      Macro ''dbt_docs__bar'' [] [] []])"
  by code_simp

lemma plain_docs_macros:
  "docs_macros ''dbt_docs__''
     (Template [Macro ''helper'' [] [] [Output [TemplateData ''x'']],
                Macro ''dbt_docs__bar'' [] [] []])
   = [(''dbt_docs__bar'', [])]"
  by code_simp

lemma plain_candidate:
  "candidate ''dbt_docs__'' (sample_docfile ''a.md'' plain_template) (''dbt_docs__bar'', [])
     = make_parsed (sample_docfile ''a.md'' plain_template) ''bar'' ''pkg.bar'' ''''"
  by code_simp

text \<open>
  C7, as stated: a candidate is emitted for a macro if and only if its name begins with
  the prefix, and its bare name is the declared name with the prefix stripped. In the
  template with the macros \<open>dbt_docs__a_dbt_docs__b\<close> (body \<open>hi\<close>) and \<open>dbt_docs__c\<close>
  (body \<open>{{ x }}\<close>) the one candidate has the bare name \<open>a_b\<close>, which is not the
  declared name without its leading prefix, and the second macro, whose name begins with
  the prefix, gets no candidate: the scan ends in an \<open>AttributeError\<close>.
\<close>

theorem parse_prefix_counterexample:
  "parse ''dbt_docs__'' sample_env_parse sample_get_fqn sample_projects ()
     (sample_docfile ''a.md'' mixed_template)
   = ([make_parsed (sample_docfile ''a.md'' mixed_template) ''a_b'' ''pkg.a_b'' ''hi''],
      Some AttributeError)
   \<and> ''a_b'' \<noteq> drop (length ''dbt_docs__'') ''dbt_docs__a_dbt_docs__b''
   \<and> startswith ''dbt_docs__c'' ''dbt_docs__''"
  by (simp add: mixed_parse startswith_def)

text \<open>
  C7, amended: when the template parses, the package of the file is a key of
  \<open>all_projects\<close>, \<open>get_fqn\<close> returns, and every macro whose name begins with the
  prefix has a body of one of the assumed shapes, the scan ends without an exception
  and emits, in document order, exactly one candidate for each macro definition whose
  declared name begins with the prefix and none for any other. The bare name of a
  candidate is the declared name with every occurrence of the prefix removed
  (\<open>str.replace\<close>), which is the declared name without its leading prefix when the
  prefix is not empty and does not occur again in the rest of the name; the unique
  identifier is the package name, a dot, and the bare name.
\<close>

theorem parse_emits_prefixed_macros:
  assumes "env_parse (file_contents docfile) = Inr ast"
    and "all_projects (package_name docfile) = Some project"
    and "get_fqn (path docfile) project = Inr fqn"
    and "\<forall>m \<in> set (docs_macros P ast). shape_contents (snd m) \<noteq> None"
  shows "parse P env_parse get_fqn all_projects root_project docfile
           = (map (candidate P docfile) (docs_macros P ast), None)
     \<and> set (docs_macros P ast)
         = {(key, body). \<exists>args defaults. Macro key args defaults body \<in> set (find_all_Macro ast)
                           \<and> startswith key P}
     \<and> (\<forall>m \<in> set (docs_macros P ast).
           name (candidate P docfile m) = py_replace (fst m) P []
         \<and> unique_id (candidate P docfile m)
             = package_name docfile @ ''.'' @ name (candidate P docfile m)
         \<and> (P \<noteq> [] \<and> \<not> occurs P (drop (length P) (fst m))
              \<longrightarrow> name (candidate P docfile m) = drop (length P) (fst m)))"
proof -
  have 1: "parse P env_parse get_fqn all_projects root_project docfile
           = (map (candidate P docfile) (docs_macros P ast), None)"
  proof -
    have "parse_macros P get_fqn all_projects docfile (find_all_Macro ast)
            = (map (candidate P docfile)
                 (filter (\<lambda>(key, body). startswith key P)
                    (concat (map macro_fields (find_all_Macro ast)))), None)"
      using assms(4)
      by (intro parse_macros_candidates [where project = project and fqn = fqn] assms(2,3))
         (simp add: docs_macros_def)
    then show ?thesis
      using assms(1) by (simp add: parse_def docs_macros_def)
  qed
  have 2: "set (docs_macros P ast)
         = {(key, body). \<exists>args defaults. Macro key args defaults body \<in> set (find_all_Macro ast)
                           \<and> startswith key P}"
    unfolding docs_macros_def set_filter set_macro_fields by auto
  have 3: "name (candidate P docfile m) = py_replace (fst m) P []
         \<and> unique_id (candidate P docfile m)
             = package_name docfile @ ''.'' @ name (candidate P docfile m)
         \<and> (P \<noteq> [] \<and> \<not> occurs P (drop (length P) (fst m))
              \<longrightarrow> name (candidate P docfile m) = drop (length P) (fst m))"
    if "m \<in> set (docs_macros P ast)" for m
  proof -
    from that have "startswith (fst m) P"
      by (auto simp: docs_macros_def)
    then show ?thesis
      by (auto simp: candidate_def make_parsed_def py_replace_strips_prefix)
  qed
  from 1 2 3 show ?thesis by blast
qed

theorem parse_emits_prefixed_macros_witness:
  "sample_env_parse (file_contents (sample_docfile ''a.md'' plain_template))
     = Inr (Template [Macro ''helper'' [] [] [Output [TemplateData ''x'']],
                      Macro ''dbt_docs__bar'' [] [] []])
   \<and> sample_projects (package_name (sample_docfile ''a.md'' plain_template)) = Some ()
   \<and> sample_get_fqn (path (sample_docfile ''a.md'' plain_template)) () = Inr [''a.md'']
   \<and> docs_macros ''dbt_docs__''
          (Template [Macro ''helper'' [] [] [Output [TemplateData ''x'']],
                     Macro ''dbt_docs__bar'' [] [] []])
        = [(''dbt_docs__bar'', [])]
   \<and> shape_contents [] = Some []
   \<and> parse ''dbt_docs__'' sample_env_parse sample_get_fqn sample_projects ()
        (sample_docfile ''a.md'' plain_template)
      = ([make_parsed (sample_docfile ''a.md'' plain_template) ''bar'' ''pkg.bar'' ''''], None)"
proof -
  have h1: "sample_env_parse (file_contents (sample_docfile ''a.md'' plain_template))
     = Inr (Template [Macro ''helper'' [] [] [Output [TemplateData ''x'']],
                      Macro ''dbt_docs__bar'' [] [] []])"
    by (rule plain_tree)
  have h2: "sample_projects (package_name (sample_docfile ''a.md'' plain_template)) = Some ()"
    by (simp add: sample_projects_def sample_docfile_def)
  have h3: "sample_get_fqn (path (sample_docfile ''a.md'' plain_template)) () = Inr [''a.md'']"
    by (simp add: sample_get_fqn_def sample_docfile_def)
  have h4: "\<forall>m \<in> set (docs_macros ''dbt_docs__''
                    (Template [Macro ''helper'' [] [] [Output [TemplateData ''x'']],
                               Macro ''dbt_docs__bar'' [] [] []])).
          shape_contents (snd m) \<noteq> None"
    by (simp add: plain_docs_macros)
  have p: "parse ''dbt_docs__'' sample_env_parse sample_get_fqn sample_projects ()
        (sample_docfile ''a.md'' plain_template)
      = ([make_parsed (sample_docfile ''a.md'' plain_template) ''bar'' ''pkg.bar'' []], None)"
    using parse_emits_prefixed_macros [where env_parse = sample_env_parse and get_fqn = sample_get_fqn
            and all_projects = sample_projects and project = "()" and root_project = "()"
            and P = "''dbt_docs__''" and fqn = "[''a.md'']"
            and docfile = "sample_docfile ''a.md'' plain_template",
            OF h1 h2 h3 h4, THEN conjunct1]
    by (simp only: plain_docs_macros plain_candidate list.map)
  show ?thesis
    using h1 h2 h3 p by (simp only: plain_docs_macros shape_contents.simps simp_thms)
qed

subsection \<open>The registry\<close>

lemma foldl_store_None:
  "foldl store reg ps k = None \<longleftrightarrow> reg k = None \<and> k \<notin> unique_id ` set ps"
  by (induction ps arbitrary: reg) (auto simp: store_def)

lemma foldl_store_Some:
  "foldl store reg ps k = Some v \<Longrightarrow> reg k = Some v \<or> (v \<in> set ps \<and> unique_id v = k)"
proof (induction ps arbitrary: reg)
  case Nil
  then show ?case by simp
next
  case (Cons a ps)
  from Cons.prems have "foldl store (store reg a) ps k = Some v" by simp
  then have "store reg a k = Some v \<or> (v \<in> set ps \<and> unique_id v = k)"
    by (rule Cons.IH)
  then show ?case
    by (auto simp: store_def split: if_splits)
qed

lemma insert_parsed_fresh:
  "distinct (map unique_id ps) \<Longrightarrow> \<forall>p\<in>set ps. reg (unique_id p) = None
     \<Longrightarrow> insert_parsed reg ps = (foldl store reg ps, None)"
proof (induction ps arbitrary: reg)
  case Nil
  show ?case by simp
next
  case (Cons p ps)
  have "\<forall>q\<in>set ps. (store reg p) (unique_id q) = None"
    using Cons.prems by (auto simp: store_def image_iff)
  then have "insert_parsed (store reg p) ps = (foldl store (store reg p) ps, None)"
    using Cons.prems by (intro Cons.IH) simp_all
  moreover have "insert_parsed reg (p # ps) = insert_parsed (store reg p) ps"
    using Cons.prems(2) by (simp add: store_def)
  ultimately show ?case
    by (simp only: foldl_Cons)
qed

lemma insert_parsed_collision:
  "distinct (map unique_id pre) \<Longrightarrow> \<forall>p\<in>set pre. reg (unique_id p) = None
     \<Longrightarrow> foldl store reg pre (unique_id new) = Some stored
     \<Longrightarrow> insert_parsed reg (pre @ new # post)
           = (foldl store reg pre, Some (DuplicateResourceError stored new))"
proof (induction pre arbitrary: reg)
  case Nil
  then show ?case by (simp add: raise_duplicate_resource_name_def)
next
  case (Cons p pre)
  have "\<forall>q\<in>set pre. (store reg p) (unique_id q) = None"
    using Cons.prems(1,2) by (auto simp: store_def image_iff)
  then have "insert_parsed (store reg p) (pre @ new # post)
           = (foldl store (store reg p) pre, Some (DuplicateResourceError stored new))"
    using Cons.prems by (intro Cons.IH) simp_all
  moreover have "insert_parsed reg ((p # pre) @ new # post)
                   = insert_parsed (store reg p) (pre @ new # post)"
    using Cons.prems(2) by (simp add: store_def)
  ultimately show ?case
    by (simp only: foldl_Cons)
qed

lemma load_and_parse_loop_collision:
  assumes "yielded_records P env_parse get_fqn all_projects root_project docfiles = pre @ new # post"
    and "distinct (map unique_id pre)"
    and "\<forall>p\<in>set pre. reg (unique_id p) = None"
    and "foldl store reg pre (unique_id new) = Some stored"
  shows "load_and_parse_loop P env_parse get_fqn all_projects root_project reg docfiles
           = (foldl store reg pre, Some (DuplicateResourceError stored new))"
  using assms
proof (induction docfiles arbitrary: reg pre)
  case Nil
  then show ?case by simp
next
  case (Cons d ds)
  obtain cs stop where p: "parse P env_parse get_fqn all_projects root_project d = (cs, stop)"
    by (cases "parse P env_parse get_fqn all_projects root_project d")
  define rest where "rest = (case stop of None \<Rightarrow>
      yielded_records P env_parse get_fqn all_projects root_project ds | Some e \<Rightarrow> [])"
  have y: "pre @ new # post = cs @ rest"
    using Cons.prems(1) p by (simp add: rest_def split: option.splits)
  then consider (later) us where "pre = cs @ us" "us @ new # post = rest"
    | (here) us where "cs = pre @ new # us"
    by (auto simp: append_eq_append_conv2 Cons_eq_append_conv)
  then show ?case
  proof cases
    case here
    have "insert_parsed reg cs = (foldl store reg pre, Some (DuplicateResourceError stored new))"
      unfolding here using Cons.prems(2,3,4) by (rule insert_parsed_collision)
    then show ?thesis using p by simp
  next
    case later
    have stop: "stop = None"
      using later(2) by (cases stop) (simp_all add: rest_def)
    have ys: "yielded_records P env_parse get_fqn all_projects root_project ds = us @ new # post"
      using later(2) stop by (simp add: rest_def)
    have ins: "insert_parsed reg cs = (foldl store reg cs, None)"
      using Cons.prems(2,3) later(1) by (intro insert_parsed_fresh) simp_all
    have fresh: "\<forall>p\<in>set us. (foldl store reg cs) (unique_id p) = None"
      using Cons.prems(2,3) later(1) by (auto simp: foldl_store_None)
    have "load_and_parse_loop P env_parse get_fqn all_projects root_project (foldl store reg cs) ds
            = (foldl store (foldl store reg cs) us, Some (DuplicateResourceError stored new))"
      using ys Cons.prems(2,4) later(1) fresh by (intro Cons.IH) simp_all
    then show ?thesis
      using p ins stop later(1) by simp
  qed
qed

lemma first_duplicate:
  "\<not> distinct (map f xs) \<Longrightarrow>
     \<exists>pre x post. xs = pre @ x # post \<and> distinct (map f pre) \<and> f x \<in> f ` set pre"
proof (induction xs rule: rev_induct)
  case Nil
  then show ?case by simp
next
  case (snoc x xs)
  show ?case
  proof (cases "distinct (map f xs)")
    case True
    with snoc.prems have "f x \<in> f ` set xs" by auto
    with True show ?thesis by blast
  next
    case False
    then obtain pre y post where "xs = pre @ y # post" "distinct (map f pre)" "f y \<in> f ` set pre"
      using snoc.IH by blast
    then have "xs @ [x] = pre @ y # (post @ [x])" by simp
    with \<open>distinct (map f pre)\<close> \<open>f y \<in> f ` set pre\<close> show ?thesis by blast
  qed
qed

lemma sample_batch:
  "load_file sample_find_matching sample_load_file_contents ''pkg'' ''/project'' [''docs'']
     = [sample_docfile ''a.md'' hello_template, sample_docfile ''b.md'' hello_template]"
  by code_simp

lemma sample_batch_yielded:
  "yielded_records ''dbt_docs__'' sample_env_parse sample_get_fqn sample_projects ()
     [sample_docfile ''a.md'' hello_template, sample_docfile ''b.md'' hello_template]
   = [make_parsed (sample_docfile ''a.md'' hello_template) ''foo'' ''pkg.foo'' ''hello'',
      make_parsed (sample_docfile ''b.md'' hello_template) ''foo'' ''pkg.foo'' ''hello'']"
  by code_simp

lemma hello_parse_b:
  "parse ''dbt_docs__'' sample_env_parse sample_get_fqn sample_projects ()
     (sample_docfile ''b.md'' hello_template)
   = ([make_parsed (sample_docfile ''b.md'' hello_template) ''foo'' ''pkg.foo'' ''hello''], None)"
  by code_simp

lemma sample_batch_result:
  "load_and_parse ''dbt_docs__'' sample_env_parse sample_get_fqn sample_find_matching
     sample_load_file_contents ''pkg'' () sample_projects ''/project'' [''docs'']
   = Inl (DuplicateResourceError
       (make_parsed (sample_docfile ''a.md'' hello_template) ''foo'' ''pkg.foo'' ''hello'')
       (make_parsed (sample_docfile ''b.md'' hello_template) ''foo'' ''pkg.foo'' ''hello''))"
  unfolding load_and_parse_def sample_batch load_and_parse_files_def
  by (simp add: hello_parse hello_parse_b raise_duplicate_resource_name_def make_parsed_def)

text \<open>
  C6: when two of the records that the parses of a batch yield have the same unique
  identifier, \<open>load_and_parse\<close> raises the duplicate-resource error for the first
  record \<open>new\<close> whose identifier is already stored and the record \<open>stored\<close> under that
  identifier. At that moment the registry holds exactly the records yielded before
  \<open>new\<close>, whose identifiers are distinct; it still maps the identifier to \<open>stored\<close>,
  and nothing after the collision is looked at.
\<close>

theorem load_and_parse_raises_on_duplicate:
  assumes "docfiles = load_file find_matching load_file_contents pkg root_dir relative_dirs"
    and "\<not> distinct (map unique_id
            (yielded_records P env_parse get_fqn all_projects root_project docfiles))"
  shows "\<exists>pre new post stored.
     yielded_records P env_parse get_fqn all_projects root_project docfiles = pre @ new # post
     \<and> distinct (map unique_id pre)
     \<and> stored \<in> set pre \<and> unique_id stored = unique_id new
     \<and> load_and_parse_loop P env_parse get_fqn all_projects root_project Map.empty docfiles
         = (registry_of pre, Some (DuplicateResourceError stored new))
     \<and> registry_of pre (unique_id new) = Some stored
     \<and> load_and_parse P env_parse get_fqn find_matching load_file_contents
           pkg root_project all_projects root_dir relative_dirs
         = Inl (DuplicateResourceError stored new)"
proof -
  let ?ys = "yielded_records P env_parse get_fqn all_projects root_project docfiles"
  obtain pre new post where d: "?ys = pre @ new # post" "distinct (map unique_id pre)"
      "unique_id new \<in> unique_id ` set pre"
    using first_duplicate [OF assms(2)] by blast
  from d(3) have "registry_of pre (unique_id new) \<noteq> None"
    by (simp add: registry_of_def foldl_store_None)
  then obtain stored where s: "registry_of pre (unique_id new) = Some stored"
    by blast
  then have mem: "stored \<in> set pre \<and> unique_id stored = unique_id new"
    using foldl_store_Some [of Map.empty pre "unique_id new" stored]
    by (simp add: registry_of_def)
  have loop: "load_and_parse_loop P env_parse get_fqn all_projects root_project Map.empty docfiles
         = (registry_of pre, Some (DuplicateResourceError stored new))"
    unfolding registry_of_def
    using d(1,2) s by (intro load_and_parse_loop_collision) (simp_all add: registry_of_def)
  then have "load_and_parse P env_parse get_fqn find_matching load_file_contents
           pkg root_project all_projects root_dir relative_dirs
         = Inl (DuplicateResourceError stored new)"
    using assms(1) by (simp add: load_and_parse_def load_and_parse_files_def)
  with d(1,2) s mem loop show ?thesis by blast
qed

theorem load_and_parse_raises_on_duplicate_witness:
  "\<not> distinct (map unique_id
        (yielded_records ''dbt_docs__'' sample_env_parse sample_get_fqn sample_projects ()
           [sample_docfile ''a.md'' hello_template, sample_docfile ''b.md'' hello_template]))
   \<and> (\<exists>pre new post stored.
        yielded_records ''dbt_docs__'' sample_env_parse sample_get_fqn sample_projects ()
           [sample_docfile ''a.md'' hello_template, sample_docfile ''b.md'' hello_template]
          = pre @ new # post
      \<and> stored \<in> set pre \<and> unique_id stored = unique_id new
      \<and> registry_of pre (unique_id new) = Some stored
      \<and> load_and_parse ''dbt_docs__'' sample_env_parse sample_get_fqn sample_find_matching
           sample_load_file_contents ''pkg'' () sample_projects ''/project'' [''docs'']
         = Inl (DuplicateResourceError stored new))
   \<and> load_and_parse ''dbt_docs__'' sample_env_parse sample_get_fqn sample_find_matching
        sample_load_file_contents ''pkg'' () sample_projects ''/project'' [''docs'']
      = Inl (DuplicateResourceError
          (make_parsed (sample_docfile ''a.md'' hello_template) ''foo'' ''pkg.foo'' ''hello'')
          (make_parsed (sample_docfile ''b.md'' hello_template) ''foo'' ''pkg.foo'' ''hello''))"
proof -
  have h: "\<not> distinct (map unique_id
        (yielded_records ''dbt_docs__'' sample_env_parse sample_get_fqn sample_projects ()
           [sample_docfile ''a.md'' hello_template, sample_docfile ''b.md'' hello_template]))"
    unfolding sample_batch_yielded by (simp add: make_parsed_def)
  show ?thesis
    using h
      load_and_parse_raises_on_duplicate [where find_matching = sample_find_matching
            and load_file_contents = sample_load_file_contents
            and env_parse = sample_env_parse and get_fqn = sample_get_fqn
            and all_projects = sample_projects and root_project = "()"
            and P = "''dbt_docs__''", OF sample_batch [symmetric] h]
      sample_batch_result
    by blast
qed

end
